theory Spec2Isabelle
  imports Main
begin

section \<open>Data model\<close>

text \<open>
  The documents of the store, one record per schema. Object ids are natural numbers.
  Dates are integers (milliseconds since the epoch), so \<open>new Date() > d\<close> is \<open>now > d\<close>
  on integers. Field names that several schemas share carry a prefix
  (\<open>l_\<close> License, \<open>r_\<close> Reseller, \<open>c_\<close> Client, \<open>a_\<close> App, \<open>u_\<close> User, \<open>p_\<close> Payment).
  Numbers (limits, counters, the count of a bulk request) are integers.
  Request bodies are the values a handler reads after the validation middleware; schema
  setters and validators of the persistence library (trim, minlength and the like) are
  outside the model, and strings are taken in the form in which they are stored.
  Requests are handled one after the other.
\<close>

datatype plan = Free | Premium

datatype paymentStatus = Unpaid | Paid

datatype createdByType = ByOwner | ByReseller

datatype licenseStatus = ACTIVE | REVOKED | EXPIRED | BANNED

text \<open>A string-valued JavaScript value that may be \<open>undefined\<close> or \<open>null\<close>.\<close>

datatype jsstr = Undefined | Null | Str string

record user =
  u_id :: nat
  u_plan :: plan
  maxApps :: int
  maxResellers :: int
  maxLicensesPerApp :: int
  u_apps :: "nat list"
  u_paymentStatus :: paymentStatus

record app =
  a_id :: nat
  a_name :: string
  a_owner :: nat
  appId :: string
  appSecret :: string
  a_version :: string
  paused :: bool
  hwidLock :: bool
  allowCustomLicenseKey :: bool
  errorMessages :: "string \<rightharpoonup> string"

record license =
  l_id :: nat
  l_app :: nat
  l_key :: string
  createdByUser :: nat
  l_createdByType :: createdByType
  l_reseller :: "nat option"
  used :: bool
  usedBy :: "nat option"
  l_status :: licenseStatus
  l_note :: "string option"
  l_expiresAt :: int

record allowedActions =
  act_create :: bool
  act_banUnban :: bool
  act_editExpiry :: bool
  act_delete :: bool

record reseller =
  r_id :: nat
  r_email :: string
  r_password :: string
  r_app :: nat
  licenseLimit :: int
  usedLicenses :: int
  r_active :: bool
  r_allowedActions :: allowedActions

record client =
  c_id :: nat
  c_username :: string
  c_password :: string
  hwid :: jsstr
  c_app :: nat
  c_licenseKey :: string
  ban :: bool
  c_expiresAt :: int
  lastLogin :: "int option"
  loginCount :: int

subsection \<open>License methods\<close>

text \<open>\<open>licenseSchema.virtual('isExpired')\<close>: \<open>new Date() > this.expiresAt\<close>.\<close>

definition l_isExpired :: "int \<Rightarrow> license \<Rightarrow> bool" where
  "l_isExpired now l = (now > l_expiresAt l)"

text \<open>
  \<open>licenseSchema.methods.toggleBan\<close>: the two branches of the source, in its order;
  any other status falls through both tests. The method then saves the document.
\<close>

definition toggleBan :: "license \<Rightarrow> license" where
  "toggleBan l =
     (if l_status l = BANNED then l\<lparr>l_status := ACTIVE\<rparr>
      else if l_status l = ACTIVE then l\<lparr>l_status := BANNED\<rparr>
      else l)"

definition revoke :: "license \<Rightarrow> license" where
  "revoke l = l\<lparr>l_status := REVOKED\<rparr>"

subsection \<open>Printing numbers\<close>

text \<open>
  The decimal rendering a template string gives an integer. \<open>digitChar\<close> is only ever
  applied to a number below ten.
\<close>

definition digitChar :: "nat \<Rightarrow> char" where
  "digitChar d = ''0123456789'' ! d"

fun showNat :: "nat \<Rightarrow> string" where
  "showNat n = (if n < 10 then [digitChar n] else showNat (n div 10) @ [digitChar (n mod 10)])"

definition showInt :: "int \<Rightarrow> string" where
  "showInt i = (if i < 0 then CHR ''-'' # showNat (nat (- i)) else showNat (nat i))"

declare showNat.simps [simp del]

section \<open>Store, environment and responses\<close>

record refund =
  refundId :: string
  rf_amount :: int
  rf_currency :: string
  rf_status :: string
  rf_reason :: string
  rf_createdAt :: int

datatype payStatus = Created | Authorized | Captured | Refunded | Failed

record payment =
  p_id :: nat
  p_user :: nat
  razorpayPaymentId :: string
  razorpayOrderId :: string
  razorpaySignature :: string
  p_amount :: int
  p_status :: payStatus
  paymentDetails :: "string \<rightharpoonup> string"
  refunds :: "refund list"

text \<open>
  The collections of the store. \<open>nextId\<close> is the source of fresh object ids: a created
  document takes it and the counter moves on.
\<close>

record db =
  users :: "user list"
  apps :: "app list"
  licenses :: "license list"
  resellers :: "reseller list"
  clients :: "client list"
  payments :: "payment list"
  nextId :: nat

text \<open>
  What a handler reads from outside the store: the process environment, the two
  cryptographic primitives, and how the store evaluates the condition \<open>user: userId\<close>
  of the routes' reseller lookups on a Reseller document (the schema declares no such
  path, so the answer is the persistence library's and is left open).
\<close>

record env =
  webhookSecret :: "string option"
  keySecret :: "string option"
  isDevelopmentMode :: bool
  hmacSha256Hex :: "string \<Rightarrow> string \<Rightarrow> string"
  bcryptHash :: "string \<Rightarrow> string"
  bcryptCompare :: "string \<Rightarrow> string \<Rightarrow> bool"
  resellerOfUser :: "nat \<Rightarrow> reseller \<Rightarrow> bool"

datatype payload =
  NoData
  | LicenseData license
  | LicensesData "license list"
  | ClientData client
  | UserData user

text \<open>
  \<open>Res status success message data\<close> is \<open>res.status(status).json({success, message, data})\<close>;
  \<open>Received\<close> and \<open>HookError\<close> are the webhook's two reply shapes; \<open>Thrown\<close> is an
  exception that leaves the handler (the error middleware answers it).
\<close>

datatype response =
  Res nat bool string payload
  | Received
  | HookError nat string
  | Thrown

text \<open>\<open>save()\<close> of a loaded document: the stored document with the same id is replaced.\<close>

definition saveLicense :: "license \<Rightarrow> db \<Rightarrow> db" where
  "saveLicense l d = d\<lparr>licenses := map (\<lambda>x. if l_id x = l_id l then l else x) (licenses d)\<rparr>"

definition saveReseller :: "reseller \<Rightarrow> db \<Rightarrow> db" where
  "saveReseller r d = d\<lparr>resellers := map (\<lambda>x. if r_id x = r_id r then r else x) (resellers d)\<rparr>"

definition saveClient :: "client \<Rightarrow> db \<Rightarrow> db" where
  "saveClient c d = d\<lparr>clients := map (\<lambda>x. if c_id x = c_id c then c else x) (clients d)\<rparr>"

definition savePayment :: "payment \<Rightarrow> db \<Rightarrow> db" where
  "savePayment p d = d\<lparr>payments := map (\<lambda>x. if p_id x = p_id p then p else x) (payments d)\<rparr>"

definition findUser :: "db \<Rightarrow> nat \<Rightarrow> user option" where
  "findUser d i = find (\<lambda>u. u_id u = i) (users d)"

definition findApp :: "db \<Rightarrow> nat \<Rightarrow> app option" where
  "findApp d i = find (\<lambda>a. a_id a = i) (apps d)"

definition findLicense :: "db \<Rightarrow> nat \<Rightarrow> license option" where
  "findLicense d i = find (\<lambda>l. l_id l = i) (licenses d)"

definition findLicenseByKey :: "db \<Rightarrow> string \<Rightarrow> license option" where
  "findLicenseByKey d k = find (\<lambda>l. l_key l = k) (licenses d)"

definition findReseller :: "db \<Rightarrow> nat \<Rightarrow> reseller option" where
  "findReseller d i = find (\<lambda>r. r_id r = i) (resellers d)"

definition findClient :: "db \<Rightarrow> nat \<Rightarrow> client option" where
  "findClient d i = find (\<lambda>c. c_id c = i) (clients d)"

text \<open>\<open>Client.findOne({ app, username })\<close>.\<close>

definition findClientByName :: "db \<Rightarrow> nat \<Rightarrow> string \<Rightarrow> client option" where
  "findClientByName d a n = find (\<lambda>c. c_app c = a \<and> c_username c = n) (clients d)"

text \<open>\<open>Reseller.findOne({ user: userId, app: appId, active: true })\<close>.\<close>

definition findResellerOfUser :: "env \<Rightarrow> db \<Rightarrow> nat \<Rightarrow> nat \<Rightarrow> reseller option" where
  "findResellerOfUser e d uid aid =
     find (\<lambda>r. resellerOfUser e uid r \<and> r_app r = aid \<and> r_active r) (resellers d)"

text \<open>\<open>getErrorMessage\<close> of the client routes: \<open>app.errorMessages[messageKey] || 'An error occurred'\<close>.\<close>

definition getErrorMessage :: "app \<Rightarrow> string \<Rightarrow> string" where
  "getErrorMessage a messageKey =
     (case errorMessages a messageKey of
        None \<Rightarrow> ''An error occurred''
      | Some m \<Rightarrow> if m = [] then ''An error occurred'' else m)"

text \<open>Truthiness of a value that is a string when present.\<close>

definition truthy :: "jsstr \<Rightarrow> bool" where
  "truthy v = (case v of Str s \<Rightarrow> s \<noteq> [] | _ \<Rightarrow> False)"

section \<open>Model methods\<close>

subsection \<open>User\<close>

text \<open>Schema defaults of a new User: the plan defaults to free and the limits follow it.\<close>

definition newUser :: "nat \<Rightarrow> user" where
  "newUser i =
     \<lparr>u_id = i, u_plan = Free, maxApps = 2, maxResellers = 0, maxLicensesPerApp = 30,
      u_apps = [], u_paymentStatus = Unpaid\<rparr>"

text \<open>
  The second \<open>userSchema.pre('save')\<close> hook; \<open>planModified\<close> is \<open>this.isModified('plan')\<close>.
  It runs on \<open>save()\<close> only: \<open>findByIdAndUpdate\<close> does not pass through it.
\<close>

definition userPreSave :: "bool \<Rightarrow> user \<Rightarrow> user" where
  "userPreSave planModified u =
     (if planModified then
        (if u_plan u = Premium
         then u\<lparr>maxApps := -1, maxResellers := -1, maxLicensesPerApp := -1\<rparr>
         else u\<lparr>maxApps := 2, maxResellers := 0, maxLicensesPerApp := 30\<rparr>)
      else u)"

definition canCreateApp :: "user \<Rightarrow> bool" where
  "canCreateApp u = (maxApps u = -1 \<or> int (length (u_apps u)) < maxApps u)"

subsection \<open>Reseller\<close>

definition remainingLicenses :: "reseller \<Rightarrow> int" where
  "remainingLicenses r =
     (if licenseLimit r = -1 then -1 else max 0 (licenseLimit r - usedLicenses r))"

definition canCreateLicense :: "reseller \<Rightarrow> bool" where
  "canCreateLicense r =
     (if \<not> r_active r then False
      else if licenseLimit r = -1 then True
      else usedLicenses r < licenseLimit r)"

text \<open>\<open>incrementUsedLicenses\<close> and \<open>decrementUsedLicenses\<close>, each followed by its save.\<close>

definition incrementUsedLicenses :: "reseller \<Rightarrow> reseller" where
  "incrementUsedLicenses r = r\<lparr>usedLicenses := usedLicenses r + 1\<rparr>"

definition decrementUsedLicenses :: "reseller \<Rightarrow> reseller" where
  "decrementUsedLicenses r =
     (if usedLicenses r > 0 then r\<lparr>usedLicenses := usedLicenses r - 1\<rparr> else r)"

text \<open>\<open>this.allowedActions[action] === true\<close>: a name that is no action reads \<open>undefined\<close>.\<close>

definition allowedAction :: "allowedActions \<Rightarrow> string \<Rightarrow> bool" where
  "allowedAction acts action =
     (if action = ''create'' then act_create acts
      else if action = ''banUnban'' then act_banUnban acts
      else if action = ''editExpiry'' then act_editExpiry acts
      else if action = ''delete'' then act_delete acts
      else False)"

definition hasPermission :: "reseller \<Rightarrow> string \<Rightarrow> bool" where
  "hasPermission r action =
     (if \<not> r_active r then False else allowedAction (r_allowedActions r) action)"

subsection \<open>App\<close>

text \<open>\<open>appSchema.methods.canCreateLicense(userId)\<close>.\<close>

definition appCanCreateLicense :: "db \<Rightarrow> app \<Rightarrow> nat \<Rightarrow> bool" where
  "appCanCreateLicense d a userId =
     (case findUser d userId of
        None \<Rightarrow> False
      | Some u \<Rightarrow>
          if maxLicensesPerApp u = -1 then True
          else int (length (filter (\<lambda>l. l_app l = a_id a) (licenses d))) < maxLicensesPerApp u)"

subsection \<open>Client\<close>

definition c_isExpired :: "int \<Rightarrow> client \<Rightarrow> bool" where
  "c_isExpired now c = (now > c_expiresAt c)"

definition updateLoginInfo :: "int \<Rightarrow> client \<Rightarrow> client" where
  "updateLoginInfo now c = c\<lparr>lastLogin := Some now, loginCount := loginCount c + 1\<rparr>"

subsection \<open>License creation\<close>

text \<open>
  The loop of \<open>licenseSchema.pre('save')\<close>. Each element of \<open>draws\<close> is what
  \<open>crypto.randomBytes(12).toString('hex').toUpperCase()\<close> gives in one iteration; the
  loop takes the first draw that no stored License has as its key and hands back the
  draws it did not consume. \<open>None\<close>: every supplied draw collided, the loop is still
  running.
\<close>

fun generateKey :: "db \<Rightarrow> string list \<Rightarrow> (string \<times> string list) option" where
  "generateKey d [] = None"
| "generateKey d (k # ks) =
     (case findLicenseByKey d k of
        None \<Rightarrow> Some (k, ks)
      | Some existingLicense \<Rightarrow> generateKey d ks)"

text \<open>
  \<open>License.create(licenseData)\<close>: schema defaults (\<open>used\<close> false, \<open>status\<close> ACTIVE), the key
  of the data when it has one (\<open>this.isNew && !this.key\<close> fails) and a generated key
  otherwise; the document is inserted under a fresh id.
\<close>

definition licenseCreate ::
  "nat \<Rightarrow> nat \<Rightarrow> createdByType \<Rightarrow> nat option \<Rightarrow> int \<Rightarrow> string option \<Rightarrow> string option
     \<Rightarrow> string list \<Rightarrow> db \<Rightarrow> (license \<times> string list \<times> db) option" where
  "licenseCreate appRef userId byType res expAt note dataKey draws d =
     (let mk = (\<lambda>k. \<lparr>l_id = nextId d, l_app = appRef, l_key = k, createdByUser = userId,
                      l_createdByType = byType, l_reseller = res, used = False,
                      usedBy = None, l_status = ACTIVE, l_note = note, l_expiresAt = expAt\<rparr>);
          ins = (\<lambda>l. d\<lparr>licenses := licenses d @ [l], nextId := Suc (nextId d)\<rparr>)
      in case dataKey of
           Some k \<Rightarrow> Some (mk k, draws, ins (mk k))
         | None \<Rightarrow>
             (case generateKey d draws of
                None \<Rightarrow> None
              | Some (k, rest) \<Rightarrow> Some (mk k, rest, ins (mk k))))"

section \<open>License routes\<close>

text \<open>
  Each handler takes what \<open>authenticateToken\<close> put into \<open>req.user\<close>, the request's
  parameters and body, and the store; it gives the response and the store afterwards.
\<close>

text \<open>
  \<open>POST /licenses\<close>, from the owner's quota check to the response: what the handler
  does once it has settled \<open>createdByType\<close> and \<open>reseller\<close>. \<open>key\<close> is the body's key,
  \<open>draws\<close> the random keys the generator would produce during this request. The result
  is \<open>None\<close> when key generation does not finish within the draws.
\<close>

definition createLicenseAs ::
  "user \<Rightarrow> app \<Rightarrow> createdByType \<Rightarrow> reseller option \<Rightarrow> jsstr \<Rightarrow> int \<Rightarrow> string option
     \<Rightarrow> string list \<Rightarrow> db \<Rightarrow> (response \<times> db) option" where
  "createLicenseAs reqUser a byType res key expAt note draws d =
     (if byType = ByOwner \<and> \<not> appCanCreateLicense d a (u_id reqUser) then
        Some (Res 403 False
               (''App has reached the maximum limit of '' @ showInt (maxLicensesPerApp reqUser)
                  @ '' licenses for your plan'') NoData, d)
      else if truthy key \<and> \<not> allowCustomLicenseKey a then
        Some (Res 400 False ''Custom license keys are not allowed for this app'' NoData, d)
      else if truthy key \<and> (case key of Str k \<Rightarrow> findLicenseByKey d k \<noteq> None | _ \<Rightarrow> False) then
        Some (Res 400 False ''License key already exists'' NoData, d)
      else
        (case licenseCreate (a_id a) (u_id reqUser) byType (map_option r_id res) expAt note
                (if truthy key then (case key of Str k \<Rightarrow> Some k | _ \<Rightarrow> None) else None)
                draws d of
           None \<Rightarrow> None
         | Some (l, rest, d1) \<Rightarrow>
             let d2 = (case res of
                         None \<Rightarrow> d1
                       | Some r \<Rightarrow> saveReseller (incrementUsedLicenses r) d1)
             in Some (Res 201 True ''License created successfully'' (LicenseData l), d2)))"

text \<open>\<open>POST /licenses\<close>: the App lookup and the owner-or-reseller decision.\<close>

definition createLicense ::
  "env \<Rightarrow> user \<Rightarrow> nat \<Rightarrow> jsstr \<Rightarrow> int \<Rightarrow> string option \<Rightarrow> string list \<Rightarrow> db
     \<Rightarrow> (response \<times> db) option" where
  "createLicense e reqUser appRef key expAt note draws d =
     (case findApp d appRef of
        None \<Rightarrow> Some (Res 404 False ''App not found'' NoData, d)
      | Some a \<Rightarrow>
          if a_owner a = u_id reqUser then
            createLicenseAs reqUser a ByOwner None key expAt note draws d
          else
            (case findResellerOfUser e d (u_id reqUser) appRef of
               None \<Rightarrow>
                 Some (Res 403 False ''You do not have permission to create licenses for this app''
                         NoData, d)
             | Some r \<Rightarrow>
                 if \<not> hasPermission r ''create'' then
                   Some (Res 403 False ''You do not have permission to create licenses'' NoData, d)
                 else if \<not> canCreateLicense r then
                   Some (Res 403 False ''You have reached your license creation limit'' NoData, d)
                 else createLicenseAs reqUser a ByReseller (Some r) key expAt note draws d))"

text \<open>
  \<open>PUT /licenses/:id\<close>. A body field that is \<open>None\<close> is \<open>undefined\<close>. \<open>populate('app')\<close>
  of a License whose App is gone gives \<open>null\<close>, and reading \<open>license.app.owner\<close> throws.
\<close>

definition applyLicenseUpdate ::
  "license \<Rightarrow> licenseStatus option \<Rightarrow> int option \<Rightarrow> string option \<Rightarrow> db \<Rightarrow> response \<times> db" where
  "applyLicenseUpdate l st expAt note d =
     (let l1 = (case st of None \<Rightarrow> l | Some v \<Rightarrow> l\<lparr>l_status := v\<rparr>);
          l2 = (case expAt of None \<Rightarrow> l1 | Some v \<Rightarrow> l1\<lparr>l_expiresAt := v\<rparr>);
          l3 = (case note of None \<Rightarrow> l2 | Some v \<Rightarrow> l2\<lparr>l_note := Some v\<rparr>)
      in (Res 200 True ''License updated successfully'' (LicenseData l3), saveLicense l3 d))"

definition updateLicense ::
  "env \<Rightarrow> user \<Rightarrow> nat \<Rightarrow> licenseStatus option \<Rightarrow> int option \<Rightarrow> string option \<Rightarrow> db
     \<Rightarrow> response \<times> db" where
  "updateLicense e reqUser lic st expAt note d =
     (case findLicense d lic of
        None \<Rightarrow> (Res 404 False ''License not found'' NoData, d)
      | Some l \<Rightarrow>
          (case findApp d (l_app l) of
             None \<Rightarrow> (Thrown, d)
           | Some a \<Rightarrow>
               if a_owner a = u_id reqUser then applyLicenseUpdate l st expAt note d
               else
                 (case findResellerOfUser e d (u_id reqUser) (a_id a) of
                    None \<Rightarrow>
                      (Res 403 False ''You do not have permission to update this license'' NoData, d)
                  | Some r \<Rightarrow>
                      if st \<noteq> None \<and> \<not> hasPermission r ''banUnban'' then
                        (Res 403 False ''You do not have permission to change license status''
                           NoData, d)
                      else if expAt \<noteq> None \<and> \<not> hasPermission r ''editExpiry'' then
                        (Res 403 False ''You do not have permission to edit license expiry''
                           NoData, d)
                      else applyLicenseUpdate l st expAt note d)))"

text \<open>
  \<open>DELETE /licenses/:id\<close>. \<open>populate('reseller')\<close> gives the Reseller document when it
  still exists; the update is \<open>$inc: { usedLicenses: -1 }\<close> on that document.
\<close>

definition deleteLicense :: "user \<Rightarrow> nat \<Rightarrow> db \<Rightarrow> response \<times> db" where
  "deleteLicense reqUser lic d =
     (let userId = u_id reqUser in
      case findLicense d lic of
        None \<Rightarrow> (Res 404 False ''License not found'' NoData, d)
      | Some l \<Rightarrow>
          (case findApp d (l_app l) of
             None \<Rightarrow> (Thrown, d)
           | Some a \<Rightarrow>
               if a_owner a \<noteq> userId then
                 (Res 403 False ''Only app owners can delete licenses'' NoData, d)
               else
                 let populated = (case l_reseller l of None \<Rightarrow> None | Some i \<Rightarrow> findReseller d i);
                     d1 = (case populated of
                             None \<Rightarrow> d
                           | Some r \<Rightarrow> saveReseller (r\<lparr>usedLicenses := usedLicenses r + (-1)\<rparr>) d);
                     d2 = d1\<lparr>licenses := filter (\<lambda>x. l_id x \<noteq> lic) (licenses d1)\<rparr>
                 in (Res 200 True ''License deleted successfully'' NoData, d2)))"

text \<open>\<open>PATCH /licenses/:id/toggle-ban\<close>.\<close>

definition toggleBanRoute :: "env \<Rightarrow> user \<Rightarrow> nat \<Rightarrow> db \<Rightarrow> response \<times> db" where
  "toggleBanRoute e reqUser lic d =
     (let userId = u_id reqUser in
      case findLicense d lic of
        None \<Rightarrow> (Res 404 False ''License not found'' NoData, d)
      | Some l \<Rightarrow>
          (case findApp d (l_app l) of
             None \<Rightarrow> (Thrown, d)
           | Some a \<Rightarrow>
               if a_owner a \<noteq> userId
                  \<and> (case findResellerOfUser e d userId (a_id a) of
                        None \<Rightarrow> True
                      | Some r \<Rightarrow> \<not> hasPermission r ''banUnban'') then
                 (Res 403 False ''You do not have permission to ban/unban licenses'' NoData, d)
               else
                 let l1 = toggleBan l in
                 (Res 200 True
                    (''License '' @ (if l_status l1 = BANNED then ''banned'' else ''unbanned'')
                       @ '' successfully'')
                    (LicenseData l1),
                  saveLicense l1 d)))"

text \<open>
  \<open>DELETE /licenses\<close> (bulk). \<open>appQ\<close> is the query's \<open>app\<close>. Only owner-created licenses
  of the owner's apps match the query; for each used one that names a reseller the
  counter of that reseller goes down by one.
\<close>

fun decrementAll :: "license list \<Rightarrow> db \<Rightarrow> db" where
  "decrementAll [] d = d"
| "decrementAll (l # ls) d =
     decrementAll ls
       (case l_reseller l of
          None \<Rightarrow> d
        | Some i \<Rightarrow>
            (case findReseller d i of
               None \<Rightarrow> d
             | Some r \<Rightarrow> saveReseller (r\<lparr>usedLicenses := usedLicenses r + (-1)\<rparr>) d))"

definition deleteAllLicenses :: "user \<Rightarrow> nat option \<Rightarrow> db \<Rightarrow> response \<times> db" where
  "deleteAllLicenses reqUser appQ d =
     (let userId = u_id reqUser;
          ownedIds = map a_id (filter (\<lambda>a. a_owner a = userId) (apps d))
      in
      if (case appQ of None \<Rightarrow> False | Some i \<Rightarrow> i \<notin> set ownedIds) then
        (Res 404 False ''App not found or you are not the owner'' NoData, d)
      else
        let query = (\<lambda>l. (case appQ of None \<Rightarrow> l_app l \<in> set ownedIds | Some i \<Rightarrow> l_app l = i)
                          \<and> l_createdByType l = ByOwner);
            licenseCount = length (filter query (licenses d));
            d1 = decrementAll (filter (\<lambda>l. query l \<and> used l) (licenses d)) d;
            d2 = d1\<lparr>licenses := filter (\<lambda>l. \<not> query l) (licenses d1)\<rparr>
        in (Res 200 True (''Successfully deleted '' @ showNat licenseCount @ '' license(s)'') NoData,
            d2))"

section \<open>Reseller routes\<close>

text \<open>
  The loop of \<open>POST /resellers/auth/licenses\<close>: \<open>n\<close> iterations left, each a
  \<open>License.create\<close> with a generated key; \<open>acc\<close> is \<open>createdLicenses\<close>.
\<close>

fun createMany ::
  "nat \<Rightarrow> nat \<Rightarrow> nat \<Rightarrow> int \<Rightarrow> string option \<Rightarrow> string list \<Rightarrow> db \<Rightarrow> license list
     \<Rightarrow> (license list \<times> db) option" where
  "createMany 0 appRef rid expAt note draws d acc = Some (acc, d)"
| "createMany (Suc n) appRef rid expAt note draws d acc =
     (case licenseCreate appRef rid ByReseller (Some rid) expAt note None draws d of
        None \<Rightarrow> None
      | Some (l, rest, d1) \<Rightarrow> createMany n appRef rid expAt note rest d1 (acc @ [l]))"

text \<open>
  \<open>POST /resellers/auth/licenses\<close>. \<open>rid\<close> is the id in the token, which
  \<open>authenticateResellerToken\<close> resolves (with the App populated); \<open>count\<close> is the body's
  count, an integer; \<open>expAt\<close> is \<open>None\<close> when the body has no date. After the loop the
  counter is raised by one and saved, then by \<open>count - 1\<close> and saved.
\<close>

definition createResellerLicenses ::
  "int \<Rightarrow> nat \<Rightarrow> int \<Rightarrow> int option \<Rightarrow> string option \<Rightarrow> string list \<Rightarrow> db
     \<Rightarrow> (response \<times> db) option" where
  "createResellerLicenses now rid count expAt note draws d =
     (case findReseller d rid of
        None \<Rightarrow> Some (Res 401 False ''Invalid token - reseller not found'' NoData, d)
      | Some r \<Rightarrow>
          if \<not> r_active r then
            Some (Res 404 False ''Reseller account not found or inactive'' NoData, d)
          else if count = 0 \<or> count < 1 \<or> count > 100 then
            Some (Res 400 False ''Count must be between 1 and 100'' NoData, d)
          else if \<not> canCreateLicense r then
            Some (Res 403 False
                   (''License limit reached. You can create ''
                      @ (if licenseLimit r = -1 then ''unlimited'' else showInt (licenseLimit r))
                      @ '' licenses total.'') NoData, d)
          else if licenseLimit r \<noteq> -1 \<and> usedLicenses r + count > licenseLimit r then
            Some (Res 403 False
                   (''Cannot create '' @ showInt count @ '' licenses. You have ''
                      @ showInt (remainingLicenses r) @ '' licenses remaining.'') NoData, d)
          else
            (case expAt of
               None \<Rightarrow> Some (Res 400 False ''Valid future expiration date is required'' NoData, d)
             | Some t \<Rightarrow>
                 if t \<le> now then
                   Some (Res 400 False ''Valid future expiration date is required'' NoData, d)
                 else
                   (case findApp d (r_app r) of
                      None \<Rightarrow> Some (Thrown, d)
                    | Some a \<Rightarrow>
                        (case createMany (nat count) (a_id a) (r_id r) t note draws d [] of
                           None \<Rightarrow> None
                         | Some (createdLicenses, d1) \<Rightarrow>
                             let r1 = incrementUsedLicenses r;
                                 d2 = saveReseller r1 d1;
                                 r2 = r1\<lparr>usedLicenses := usedLicenses r1 + (count - 1)\<rparr>;
                                 d3 = saveReseller r2 d2
                             in Some (Res 201 True
                                        (''Successfully created '' @ showInt count @ '' license(s)'')
                                        (LicensesData createdLicenses), d3)))))"

text \<open>
  \<open>DELETE /resellers/:id\<close>. \<open>populate('app')\<close> of a Reseller whose App is gone gives
  \<open>null\<close>, and reading \<open>reseller.app.owner\<close> throws.
\<close>

definition deleteReseller :: "user \<Rightarrow> nat \<Rightarrow> db \<Rightarrow> response \<times> db" where
  "deleteReseller reqUser rid d =
     (case findReseller d rid of
        None \<Rightarrow> (Res 404 False ''Reseller not found'' NoData, d)
      | Some r \<Rightarrow>
          (case findApp d (r_app r) of
             None \<Rightarrow> (Thrown, d)
           | Some a \<Rightarrow>
               if a_owner a \<noteq> u_id reqUser then
                 (Res 403 False ''You can only delete resellers for your own apps'' NoData, d)
               else
                 let activeLicenses =
                       length (filter (\<lambda>l. l_reseller l = Some (r_id r) \<and> l_status l = ACTIVE)
                                 (licenses d))
                 in
                 if activeLicenses > 0 then
                   (Res 400 False
                      (''Cannot delete reseller with '' @ showNat activeLicenses @ '' active licenses'')
                      NoData, d)
                 else
                   (Res 200 True ''Reseller deleted successfully'' NoData,
                    d\<lparr>resellers := filter (\<lambda>x. r_id x \<noteq> rid) (resellers d)\<rparr>)))"

section \<open>Client routes\<close>

text \<open>
  \<open>Client.create\<close> of the registration route: the schema defaults fill \<open>ban\<close>,
  \<open>loginCount\<close> and an \<open>undefined\<close> hwid (default \<open>null\<close>); the pre-save hook hashes the
  password.
\<close>

definition clientCreate ::
  "env \<Rightarrow> string \<Rightarrow> string \<Rightarrow> jsstr \<Rightarrow> nat \<Rightarrow> string \<Rightarrow> int \<Rightarrow> db \<Rightarrow> client \<times> db" where
  "clientCreate e username password hw appRef licenseKey expAt d =
     (let c = \<lparr>c_id = nextId d, c_username = username, c_password = bcryptHash e password,
                hwid = (if hw = Undefined then Null else hw), c_app = appRef,
                c_licenseKey = licenseKey, ban = False, c_expiresAt = expAt,
                lastLogin = None, loginCount = 0\<rparr>
      in (c, d\<lparr>clients := clients d @ [c], nextId := Suc (nextId d)\<rparr>))"

text \<open>
  \<open>POST /clients/register\<close>. \<open>populate('app')\<close> of a License whose App is gone gives
  \<open>null\<close>, and reading \<open>app.paused\<close> throws.
\<close>

definition registerClient ::
  "env \<Rightarrow> int \<Rightarrow> string \<Rightarrow> string \<Rightarrow> string \<Rightarrow> jsstr \<Rightarrow> db \<Rightarrow> response \<times> db" where
  "registerClient e now username password licenseKey hw d =
     (case findLicenseByKey d licenseKey of
        None \<Rightarrow> (Res 400 False ''Invalid license key'' NoData, d)
      | Some l \<Rightarrow>
          (case findApp d (l_app l) of
             None \<Rightarrow> (Thrown, d)
           | Some a \<Rightarrow>
               if paused a then (Res 400 False (getErrorMessage a ''pausedApp'') NoData, d)
               else if used l then (Res 400 False (getErrorMessage a ''keyUsed'') NoData, d)
               else if l_status l \<noteq> ACTIVE then
                 (Res 400 False (getErrorMessage a ''keyBanned'') NoData, d)
               else if l_isExpired now l then
                 (Res 400 False (getErrorMessage a ''noActiveSubs'') NoData, d)
               else if length username < 3 then
                 (Res 400 False (getErrorMessage a ''unTooShort'') NoData, d)
               else if findClientByName d (a_id a) username \<noteq> None then
                 (Res 400 False (getErrorMessage a ''usernameTaken'') NoData, d)
               else
                 (case clientCreate e username password hw (a_id a) licenseKey (l_expiresAt l) d of
                    (c, d1) \<Rightarrow>
                      (Res 201 True ''Registration successful'' (ClientData c),
                       saveLicense (l\<lparr>used := True, usedBy := Some (c_id c)\<rparr>) d1))))"

text \<open>\<open>App.findOne({ appId, appSecret })\<close>.\<close>

definition findAppByCredentials :: "db \<Rightarrow> string \<Rightarrow> string \<Rightarrow> app option" where
  "findAppByCredentials d i s = find (\<lambda>a. appId a = i \<and> appSecret a = s) (apps d)"

text \<open>The end of \<open>POST /clients/login\<close>: \<open>updateLoginInfo\<close>, its save, and the reply.\<close>

definition finishLogin :: "int \<Rightarrow> app \<Rightarrow> client \<Rightarrow> db \<Rightarrow> response \<times> db" where
  "finishLogin now a c d =
     (let c1 = updateLoginInfo now c
      in (Res 200 True (getErrorMessage a ''loggedInMsg'') (ClientData c1), saveClient c1 d))"

text \<open>
  \<open>POST /clients/login\<close>. \<open>client.hwid !== hwid\<close> is strict inequality of two values
  that are strings, \<open>null\<close> or \<open>undefined\<close>.
\<close>

definition loginClient ::
  "env \<Rightarrow> int \<Rightarrow> string \<Rightarrow> string \<Rightarrow> jsstr \<Rightarrow> string \<Rightarrow> string \<Rightarrow> db \<Rightarrow> response \<times> db" where
  "loginClient e now username password hw appIdB appSecretB d =
     (case findAppByCredentials d appIdB appSecretB of
        None \<Rightarrow> (Res 401 False ''Invalid application credentials'' NoData, d)
      | Some a \<Rightarrow>
          if paused a then (Res 400 False (getErrorMessage a ''pausedApp'') NoData, d)
          else
            (case findClientByName d (a_id a) username of
               None \<Rightarrow> (Res 401 False (getErrorMessage a ''usernameNotFound'') NoData, d)
             | Some c \<Rightarrow>
                 if \<not> bcryptCompare e password (c_password c) then
                   (Res 401 False (getErrorMessage a ''passMismatch'') NoData, d)
                 else if ban c then
                   (Res 403 False (getErrorMessage a ''userBanned'') NoData, d)
                 else if c_isExpired now c then
                   (Res 403 False (getErrorMessage a ''noActiveSubs'') NoData, d)
                 else if hwidLock a then
                   (if hwid c \<noteq> hw then
                      (Res 403 False (getErrorMessage a ''hwidMismatch'') NoData, d)
                    else finishLogin now a c d)
                 else finishLogin now a (if hwid c \<noteq> hw then c\<lparr>hwid := hw\<rparr> else c) d))"

text \<open>
  \<open>DELETE /clients/:id\<close>. \<open>populate('app')\<close> of a Client whose App is gone gives \<open>null\<close>,
  and reading \<open>client.app.owner\<close> throws.
\<close>

definition deleteClient :: "user \<Rightarrow> nat \<Rightarrow> db \<Rightarrow> response \<times> db" where
  "deleteClient reqUser cid d =
     (case findClient d cid of
        None \<Rightarrow> (Res 404 False ''Client not found'' NoData, d)
      | Some c \<Rightarrow>
          (case findApp d (c_app c) of
             None \<Rightarrow> (Thrown, d)
           | Some a \<Rightarrow>
               if a_owner a \<noteq> u_id reqUser then
                 (Res 403 False ''You do not have permission to delete this client'' NoData, d)
               else
                 let d1 = (case findLicenseByKey d (c_licenseKey c) of
                             None \<Rightarrow> d
                           | Some l \<Rightarrow> saveLicense (l\<lparr>used := False, usedBy := None\<rparr>) d)
                 in (Res 200 True ''Client deleted successfully and license has been freed'' NoData,
                     d1\<lparr>clients := filter (\<lambda>x. c_id x \<noteq> cid) (clients d1)\<rparr>)))"

section \<open>App routes\<close>

text \<open>
  \<open>DELETE /apps/:id\<close>, behind \<open>requireAppOwnership\<close>, which looks for the id among the
  apps of \<open>req.user\<close> (populated: an id whose App is gone is not among them).
\<close>

definition deleteApp :: "user \<Rightarrow> nat \<Rightarrow> db \<Rightarrow> response \<times> db" where
  "deleteApp reqUser aid d =
     (if \<not> (aid \<in> set (u_apps reqUser) \<and> findApp d aid \<noteq> None) then
        (Res 403 False ''Access denied - you do not own this app'' NoData, d)
      else
        (case findApp d aid of
           None \<Rightarrow> (Res 404 False ''App not found'' NoData, d)
         | Some a \<Rightarrow>
             (Res 200 True ''App and all related data deleted successfully'' NoData,
              d\<lparr>licenses := filter (\<lambda>l. l_app l \<noteq> aid) (licenses d),
                users := map (\<lambda>u. if u_id u = u_id reqUser
                                    then u\<lparr>u_apps := filter (\<lambda>x. x \<noteq> aid) (u_apps u)\<rparr> else u)
                           (users d),
                apps := filter (\<lambda>x. a_id x \<noteq> aid) (apps d)\<rparr>)))"

section \<open>Payment routes\<close>

text \<open>What the gateway returns for a payment and for an order.\<close>

record gwPayment =
  gp_id :: string
  gp_order_id :: string
  gp_status :: string
  gp_amount :: int
  gp_details :: "string \<rightharpoonup> string"

text \<open>\<open>o_userId\<close>: the user whose id \<open>order.notes.userId\<close> spells, if any.\<close>

record gwOrder =
  o_userId :: "nat option"

text \<open>
  \<open>POST /payments/cancel-subscription\<close>. \<open>req.user.apps\<close> is populated, so its length
  counts the listed apps that exist. The write is \<open>User.findByIdAndUpdate\<close> with the five
  fields of the source.
\<close>

definition cancelSubscription :: "user \<Rightarrow> db \<Rightarrow> response \<times> db" where
  "cancelSubscription reqUser d =
     (if u_plan reqUser = Free then
        (Res 400 False ''You are already on the free plan'' NoData, d)
      else
        let userAppsCount = length (filter (\<lambda>i. findApp d i \<noteq> None) (u_apps reqUser)) in
        if userAppsCount > 2 then
          (Res 400 False
             (''You have '' @ showNat userAppsCount @ '' apps. Please delete ''
                @ showNat (userAppsCount - 2) @ '' apps before downgrading to free plan.'')
             NoData, d)
        else
          (case findUser d (u_id reqUser) of
             None \<Rightarrow> (Thrown, d)
           | Some u \<Rightarrow>
               let u1 = u\<lparr>u_plan := Free, u_paymentStatus := Unpaid, maxApps := 2,
                          maxResellers := 1, maxLicensesPerApp := 30\<rparr>
               in (Res 200 True ''Successfully downgraded to free plan'' (UserData u1),
                   d\<lparr>users := map (\<lambda>x. if u_id x = u_id reqUser then u1 else x) (users d)\<rparr>)))"

definition startsWith :: "string \<Rightarrow> string \<Rightarrow> bool" where
  "startsWith s pre = (take (length pre) s = pre)"

text \<open>
  \<open>POST /payments/razorpay/verify\<close>. \<open>fetchedPayment\<close> and \<open>fetchedOrder\<close> are what the
  gateway answers to the two fetches (\<open>None\<close>: the call throws). Everything after the
  first check runs inside \<open>try\<close>, and the \<open>catch\<close> answers 500. The mock branch reads
  \<open>order\<close>, a \<open>const\<close> that the same block declares further down, while it builds the
  Payment: the read throws before anything is written. Saving a Payment whose
  \<open>razorpayPaymentId\<close> is already stored violates the unique index and throws.
\<close>

definition verifyPayment ::
  "env \<Rightarrow> user \<Rightarrow> jsstr \<Rightarrow> jsstr \<Rightarrow> jsstr \<Rightarrow> gwPayment option \<Rightarrow> gwOrder option \<Rightarrow> db
     \<Rightarrow> response \<times> db" where
  "verifyPayment e reqUser orderIdB paymentIdB signatureB fetchedPayment fetchedOrder d =
     (case (orderIdB, paymentIdB, signatureB) of
        (Str orderId, Str paymentId, Str signature) \<Rightarrow>
          if orderId = [] \<or> paymentId = [] \<or> signature = [] then
            (Res 400 False ''Missing required payment verification data'' NoData, d)
          else if isDevelopmentMode e \<or> startsWith orderId ''order_mock_'' then
            (Res 500 False ''Payment verification failed'' NoData, d)
          else
            (case keySecret e of
               None \<Rightarrow> (Res 500 False ''Payment verification failed'' NoData, d)
             | Some secret \<Rightarrow>
                 if hmacSha256Hex e secret (orderId @ ''|'' @ paymentId) \<noteq> signature then
                   (Res 400 False ''Invalid payment signature'' NoData, d)
                 else
                   (case fetchedPayment of
                      None \<Rightarrow> (Res 500 False ''Payment verification failed'' NoData, d)
                    | Some pay \<Rightarrow>
                        if gp_status pay \<noteq> ''captured'' then
                          (Res 400 False ''Payment not completed'' NoData, d)
                        else
                          (case fetchedOrder of
                             None \<Rightarrow> (Res 500 False ''Payment verification failed'' NoData, d)
                           | Some ord \<Rightarrow>
                               if o_userId ord \<noteq> Some (u_id reqUser) then
                                 (Res 400 False ''Payment verification failed - user mismatch''
                                    NoData, d)
                               else if find (\<lambda>p. razorpayPaymentId p = gp_id pay) (payments d) \<noteq> None
                               then (Res 500 False ''Payment verification failed'' NoData, d)
                               else
                                 let rec = \<lparr>p_id = nextId d, p_user = u_id reqUser,
                                            razorpayPaymentId = gp_id pay,
                                            razorpayOrderId = gp_order_id pay,
                                            razorpaySignature = signature,
                                            p_amount = gp_amount pay, p_status = Captured,
                                            paymentDetails = gp_details pay, refunds = []\<rparr>;
                                     d1 = d\<lparr>payments := payments d @ [rec],
                                             nextId := Suc (nextId d)\<rparr>
                                 in
                                 (case findUser d1 (u_id reqUser) of
                                    None \<Rightarrow> (Res 500 False ''Payment verification failed'' NoData, d1)
                                  | Some u \<Rightarrow>
                                      let u1 = u\<lparr>u_plan := Premium, u_paymentStatus := Paid,
                                                 maxApps := -1, maxResellers := -1,
                                                 maxLicensesPerApp := -1\<rparr>
                                      in (Res 200 True
                                            ''Payment verified successfully. Welcome to premium!''
                                            (UserData u1),
                                          d1\<lparr>users := map (\<lambda>x. if u_id x = u_id reqUser
                                                                    then u1 else x) (users d1)\<rparr>)))))
      | _ \<Rightarrow> (Res 400 False ''Missing required payment verification data'' NoData, d))"

subsection \<open>Webhook\<close>

text \<open>
  A webhook entity: its \<open>id\<close> and its own properties as text. A refund entity with the
  fields \<open>addRefund\<close> reads.
\<close>

record payEntity =
  e_id :: string
  e_props :: "string \<rightharpoonup> string"

record refundEntity =
  re_id :: string
  re_payment_id :: string
  re_amount :: int
  re_currency :: string
  re_status :: string
  re_reason :: "string option"
  re_created_at :: int

text \<open>
  The body of a webhook request: \<open>wb_json\<close> is \<open>JSON.stringify(req.body)\<close>, \<open>wb_payment\<close>
  is \<open>payload.payment.entity\<close> and \<open>wb_refund\<close> is \<open>payload.refund.entity\<close> (\<open>None\<close>: the
  payload has no such member and the read throws).
\<close>

record webhookBody =
  wb_json :: string
  wb_event :: string
  wb_payment :: "payEntity option"
  wb_refund :: "refundEntity option"

definition findPaymentByRazorpayId :: "db \<Rightarrow> string \<Rightarrow> payment option" where
  "findPaymentByRazorpayId d i = find (\<lambda>p. razorpayPaymentId p = i) (payments d)"

definition handlePaymentCaptured :: "payEntity \<Rightarrow> db \<Rightarrow> db" where
  "handlePaymentCaptured paymentData d =
     (case findPaymentByRazorpayId d (e_id paymentData) of
        None \<Rightarrow> d
      | Some p \<Rightarrow>
          if p_status p \<noteq> Captured then
            savePayment (p\<lparr>p_status := Captured,
                           paymentDetails := paymentDetails p ++ e_props paymentData\<rparr>) d
          else d)"

definition handlePaymentFailed :: "payEntity \<Rightarrow> db \<Rightarrow> db" where
  "handlePaymentFailed paymentData d =
     (case findPaymentByRazorpayId d (e_id paymentData) of
        None \<Rightarrow> d
      | Some p \<Rightarrow>
          savePayment (p\<lparr>p_status := Failed,
                         paymentDetails := (paymentDetails p)
                           (''error_code'' := e_props paymentData ''error_code'',
                            ''error_description'' := e_props paymentData ''error_description'')\<rparr>) d)"

text \<open>\<open>paymentSchema.methods.addRefund\<close>.\<close>

definition addRefund :: "refundEntity \<Rightarrow> payment \<Rightarrow> payment" where
  "addRefund refundData p =
     p\<lparr>refunds := refunds p @
          [\<lparr>refundId = re_id refundData, rf_amount = re_amount refundData,
            rf_currency = re_currency refundData, rf_status = re_status refundData,
            rf_reason = (case re_reason refundData of
                           None \<Rightarrow> ''Refund requested''
                         | Some t \<Rightarrow> if t = [] then ''Refund requested'' else t),
            rf_createdAt = re_created_at refundData * 1000\<rparr>]\<rparr>"

definition handleRefundProcessed :: "refundEntity \<Rightarrow> db \<Rightarrow> db" where
  "handleRefundProcessed refundData d =
     (case findPaymentByRazorpayId d (re_payment_id refundData) of
        None \<Rightarrow> d
      | Some p \<Rightarrow> savePayment (addRefund refundData p) d)"

text \<open>
  \<open>POST /payments/webhook\<close>. \<open>sig\<close> is the \<open>X-Razorpay-Signature\<close> header, \<open>None\<close> when
  the request has none. A secret that is unset or empty is falsy.
\<close>

definition webhook :: "env \<Rightarrow> string option \<Rightarrow> webhookBody \<Rightarrow> db \<Rightarrow> response \<times> db" where
  "webhook e sig body d =
     (case webhookSecret e of
        None \<Rightarrow> (Received, d)
      | Some secret \<Rightarrow>
          if secret = [] then (Received, d)
          else if sig \<noteq> Some (hmacSha256Hex e secret (wb_json body)) then
            (HookError 400 ''Invalid signature'', d)
          else if wb_event body = ''payment.captured'' then
            (case wb_payment body of
               None \<Rightarrow> (HookError 500 ''Webhook processing failed'', d)
             | Some ent \<Rightarrow> (Received, handlePaymentCaptured ent d))
          else if wb_event body = ''payment.failed'' then
            (case wb_payment body of
               None \<Rightarrow> (HookError 500 ''Webhook processing failed'', d)
             | Some ent \<Rightarrow> (Received, handlePaymentFailed ent d))
          else if wb_event body = ''refund.processed'' then
            (case wb_refund body of
               None \<Rightarrow> (HookError 500 ''Webhook processing failed'', d)
             | Some ent \<Rightarrow> (Received, handleRefundProcessed ent d))
          else (Received, d))"

section \<open>Requests\<close>

text \<open>
  \<open>authenticateToken\<close>: the id in the token is resolved to a User; without one the
  middleware answers 401 and the handler does not run.
\<close>

definition authenticateToken :: "db \<Rightarrow> nat \<Rightarrow> (user \<Rightarrow> response \<times> db) \<Rightarrow> response \<times> db" where
  "authenticateToken d uid handler =
     (case findUser d uid of
        None \<Rightarrow> (Res 401 False ''Invalid token - user not found'' NoData, d)
      | Some u \<Rightarrow> handler u)"

text \<open>
  The requests of the modelled routes. The first number of an authenticated request is
  the id its token carries; a request that reads the clock carries the time, and one
  that generates keys carries the draws of its generator.
\<close>

datatype request =
  CreateLicense nat nat jsstr int "string option" "string list"
  | UpdateLicense nat nat "licenseStatus option" "int option" "string option"
  | DeleteLicense nat nat
  | ToggleBan nat nat
  | DeleteAllLicenses nat "nat option"
  | CreateResellerLicenses int nat int "int option" "string option" "string list"
  | DeleteReseller nat nat
  | RegisterClient int string string string jsstr
  | LoginClient int string string jsstr string string
  | DeleteClient nat nat
  | DeleteApp nat nat
  | CancelSubscription nat
  | VerifyPayment nat jsstr jsstr jsstr "gwPayment option" "gwOrder option"
  | Webhook "string option" webhookBody

text \<open>One request against the store. \<open>None\<close>: the handler has not returned.\<close>

fun step :: "env \<Rightarrow> request \<Rightarrow> db \<Rightarrow> (response \<times> db) option" where
  "step e (CreateLicense uid appRef key expAt note draws) d =
     (case findUser d uid of
        None \<Rightarrow> Some (Res 401 False ''Invalid token - user not found'' NoData, d)
      | Some u \<Rightarrow> createLicense e u appRef key expAt note draws d)"
| "step e (UpdateLicense uid lic st expAt note) d =
     Some (authenticateToken d uid (\<lambda>u. updateLicense e u lic st expAt note d))"
| "step e (DeleteLicense uid lic) d =
     Some (authenticateToken d uid (\<lambda>u. deleteLicense u lic d))"
| "step e (ToggleBan uid lic) d =
     Some (authenticateToken d uid (\<lambda>u. toggleBanRoute e u lic d))"
| "step e (DeleteAllLicenses uid appQ) d =
     Some (authenticateToken d uid (\<lambda>u. deleteAllLicenses u appQ d))"
| "step e (CreateResellerLicenses now rid count expAt note draws) d =
     createResellerLicenses now rid count expAt note draws d"
| "step e (DeleteReseller uid rid) d =
     Some (authenticateToken d uid (\<lambda>u. deleteReseller u rid d))"
| "step e (RegisterClient now username password licenseKey hw) d =
     Some (registerClient e now username password licenseKey hw d)"
| "step e (LoginClient now username password hw appIdB appSecretB) d =
     Some (loginClient e now username password hw appIdB appSecretB d)"
| "step e (DeleteClient uid cid) d =
     Some (authenticateToken d uid (\<lambda>u. deleteClient u cid d))"
| "step e (DeleteApp uid aid) d =
     Some (authenticateToken d uid (\<lambda>u. deleteApp u aid d))"
| "step e (CancelSubscription uid) d =
     Some (authenticateToken d uid (\<lambda>u. cancelSubscription u d))"
| "step e (VerifyPayment uid orderIdB paymentIdB signatureB fetchedPayment fetchedOrder) d =
     Some (authenticateToken d uid
             (\<lambda>u. verifyPayment e u orderIdB paymentIdB signatureB fetchedPayment fetchedOrder d))"
| "step e (Webhook sig body) d = Some (webhook e sig body d)"


text \<open>
  The state of the License collection that the lifecycle keeps: a used License names
  its Client, no two Licenses share a key, and ids are distinct and older than the
  next fresh id.
\<close>

definition usedHasClient :: "license list \<Rightarrow> bool" where
  "usedHasClient ls = (\<forall>l \<in> set ls. used l \<longrightarrow> usedBy l \<noteq> None)"

definition licenseStoreOk :: "db \<Rightarrow> bool" where
  "licenseStoreOk d =
     (usedHasClient (licenses d) \<and> distinct (map l_key (licenses d))
      \<and> distinct (map l_id (licenses d)) \<and> (\<forall>l \<in> set (licenses d). l_id l < nextId d))"

section \<open>Example states\<close>

text \<open>
  Concrete inputs for the closed statements below. The two cryptographic primitives
  are stand-ins that keep their arguments readable.
\<close>

definition exEnv :: env where
  "exEnv =
     \<lparr>webhookSecret = Some ''whsec'', keySecret = Some ''ksec'', isDevelopmentMode = False,
      hmacSha256Hex = (\<lambda>k m. k @ '':'' @ m), bcryptHash = (\<lambda>p. ''#'' @ p),
      bcryptCompare = (\<lambda>p h. h = ''#'' @ p), resellerOfUser = (\<lambda>u r. False)\<rparr>"

definition exOwner :: user where
  "exOwner =
     \<lparr>u_id = 1, u_plan = Premium, maxApps = -1, maxResellers = -1, maxLicensesPerApp = -1,
      u_apps = [2], u_paymentStatus = Paid\<rparr>"

definition exApp :: app where
  "exApp =
     \<lparr>a_id = 2, a_name = ''Demo'', a_owner = 1, appId = ''A1B2C3D4'', appSecret = ''s3cr3t'',
      a_version = ''1.0.0'', paused = False, hwidLock = True, allowCustomLicenseKey = False,
      errorMessages = [''hwidMismatch'' \<mapsto> ''Wrong machine'', ''keyUsed'' \<mapsto> ''Key taken'',
                       ''keyNotFound'' \<mapsto> ''No such key'']\<rparr>"

definition exReseller :: reseller where
  "exReseller =
     \<lparr>r_id = 3, r_email = ''r@example.org'', r_password = ''#pw'', r_app = 2, licenseLimit = 5,
      usedLicenses = 0, r_active = True,
      r_allowedActions = \<lparr>act_create = True, act_banUnban = True, act_editExpiry = True,
                           act_delete = False\<rparr>\<rparr>"

definition exLicense :: license where
  "exLicense =
     \<lparr>l_id = 4, l_app = 2, l_key = ''0123456789ABCDEF01234567'', createdByUser = 3,
      l_createdByType = ByReseller, l_reseller = Some 3, used = False, usedBy = None,
      l_status = ACTIVE, l_note = None, l_expiresAt = 2000\<rparr>"

definition exDb :: db where
  "exDb =
     \<lparr>users = [exOwner], apps = [exApp], licenses = [exLicense], resellers = [exReseller],
      clients = [], payments = [], nextId = 5\<rparr>"

definition exDbInactive :: db where
  "exDbInactive =
     exDb\<lparr>licenses := [exLicense\<lparr>l_status := BANNED\<rparr>,
                        exLicense\<lparr>l_id := 5, l_key := ''K5'', l_status := REVOKED\<rparr>,
                        exLicense\<lparr>l_id := 6, l_key := ''K6'', l_status := EXPIRED\<rparr>],
           nextId := 7\<rparr>"

definition exPayment :: payment where
  "exPayment =
     \<lparr>p_id = 8, p_user = 1, razorpayPaymentId = ''pay_1'', razorpayOrderId = ''order_1'',
      razorpaySignature = ''sig'', p_amount = 49900, p_status = Captured,
      paymentDetails = [''email'' \<mapsto> ''o@example.org''], refunds = []\<rparr>"

definition exDbPaid :: db where
  "exDbPaid = exDb\<lparr>payments := [exPayment], nextId := 9\<rparr>"

definition exCaptured :: webhookBody where
  "exCaptured =
     \<lparr>wb_json = ''{payment.captured pay_1}'', wb_event = ''payment.captured'',
      wb_payment = Some \<lparr>e_id = ''pay_1'', e_props = [''id'' \<mapsto> ''pay_1'', ''fee'' \<mapsto> ''12'']\<rparr>,
      wb_refund = None\<rparr>"

definition exClient :: client where
  "exClient =
     \<lparr>c_id = 7, c_username = ''alice'', c_password = ''#secret'', hwid = Str ''PC-1'', c_app = 2,
      c_licenseKey = ''0123456789ABCDEF01234567'', ban = False, c_expiresAt = 2000,
      lastLogin = None, loginCount = 3\<rparr>"

definition exDbClient :: db where
  "exDbClient =
     exDb\<lparr>licenses := [exLicense\<lparr>used := True, usedBy := Some 7\<rparr>], clients := [exClient],
           nextId := 8\<rparr>"

text \<open>The same store with the App's HWID lock switched off.\<close>

definition exDbOpen :: db where
  "exDbOpen = exDbClient\<lparr>apps := [exApp\<lparr>hwidLock := False\<rparr>]\<rparr>"

text \<open>The same store after the owner has set two error messages to the empty string.\<close>

definition exDbSilent :: db where
  "exDbSilent =
     exDbClient\<lparr>apps := [exApp\<lparr>errorMessages :=
        (errorMessages exApp)(''hwidMismatch'' \<mapsto> [], ''keyUsed'' \<mapsto> [])\<rparr>]\<rparr>"

text \<open>The first store with custom license keys allowed.\<close>

definition exDbCustom :: db where
  "exDbCustom = exDb\<lparr>apps := [exApp\<lparr>allowCustomLicenseKey := True\<rparr>]\<rparr>"

text \<open>
  Three requests against the store with custom keys allowed: the owner creates a License
  with the key \<open>MY-KEY\<close>, a client registers with it, and the owner creates a License
  without a key while the generator first draws \<open>MY-KEY\<close> again.
\<close>

definition exRequests :: "request list" where
  "exRequests =
     [CreateLicense 1 2 (Str ''MY-KEY'') 2000 None [],
      RegisterClient 1000 ''alice'' ''secret'' ''MY-KEY'' (Str ''PC-1''),
      CreateLicense 1 2 Undefined 2000 None [''MY-KEY'', ''FRESH'']]"

section \<open>Properties\<close>

subsection \<open>Lookups\<close>

lemma find_Some_pred: "find P xs = Some x \<Longrightarrow> P x \<and> x \<in> set xs"
  by (induction xs) (auto split: if_splits)


lemmas exStates =
  exEnv_def exOwner_def exApp_def exReseller_def exLicense_def exClient_def exPayment_def
  exDb_def exDbInactive_def exDbCustom_def exDbClient_def exDbOpen_def exDbSilent_def
  exDbPaid_def exCaptured_def exRequests_def

lemmas showEval = showInt_def showNat.simps digitChar_def

subsection \<open>Banning a license\<close>

text \<open>
  C5. \<open>toggleBan\<close> maps ACTIVE to BANNED and BANNED to ACTIVE, leaves a REVOKED or
  EXPIRED status as it is, and changes no other field: in particular \<open>used\<close> and
  \<open>usedBy\<close> stay as they were, so banning does not clear usage.
\<close>

theorem toggleBan_flips_active_banned_only:
  "toggleBan l =
     l\<lparr>l_status := (case l_status l of
                       ACTIVE \<Rightarrow> BANNED | BANNED \<Rightarrow> ACTIVE
                     | REVOKED \<Rightarrow> REVOKED | EXPIRED \<Rightarrow> EXPIRED)\<rparr>
   \<and> used (toggleBan l) = used l
   \<and> usedBy (toggleBan l) = usedBy l"
  by (cases "l_status l") (simp_all add: toggleBan_def)

subsection \<open>Plan limits\<close>

text \<open>
  C1, at a failing input. A premium owner cancels the subscription: the stored User is
  then on the free plan with limits (2, 1, 30), while the pre-save hook gives a free
  User (2, 0, 30).
\<close>

theorem cancelSubscription_leaves_one_reseller:
  "map (\<lambda>u. (u_plan u, maxApps u, maxResellers u, maxLicensesPerApp u))
       (users (snd (the (step exEnv (CancelSubscription 1) exDb)))) = [(Free, 2, 1, 30)]
   \<and> (let u = userPreSave True (exOwner\<lparr>u_plan := Free\<rparr>)
      in (maxApps u, maxResellers u, maxLicensesPerApp u)) = (2, 0, 30)"
  by (simp add: authenticateToken_def cancelSubscription_def findUser_def findApp_def
        userPreSave_def exDb_def exOwner_def exApp_def Let_def)

subsection \<open>Deleting a license\<close>

text \<open>
  C4, at a failing input. The owner deletes a reseller-created License while the
  reseller's counter is 0: the route's \<open>$inc\<close> leaves the counter at -1, where
  \<open>decrementUsedLicenses\<close> would keep it at 0.
\<close>

theorem deleteLicense_counter_below_zero:
  "map usedLicenses (resellers (snd (the (step exEnv (DeleteLicense 1 4) exDb)))) = [-1]
   \<and> usedLicenses (decrementUsedLicenses exReseller) = 0"
  by (simp add: authenticateToken_def deleteLicense_def findUser_def findApp_def
        findLicense_def findReseller_def saveReseller_def decrementUsedLicenses_def
        exDb_def exOwner_def exApp_def exLicense_def exReseller_def Let_def)


subsection \<open>Deleting a reseller\<close>

text \<open>
  C6. When the owner of the reseller's app asks to delete the reseller, the request
  fails (400, store unchanged) if some License of that reseller has status ACTIVE, and
  otherwise succeeds and removes the reseller, whatever REVOKED, EXPIRED or BANNED
  licenses it has.
\<close>

theorem deleteReseller_blocked_by_active_only:
  assumes r: "findReseller d rid = Some r"
    and a: "findApp d (r_app r) = Some a"
    and own: "a_owner a = u_id reqUser"
  shows "((\<exists>l \<in> set (licenses d). l_reseller l = Some rid \<and> l_status l = ACTIVE) \<longrightarrow>
            (\<exists>m. deleteReseller reqUser rid d = (Res 400 False m NoData, d)))
       \<and> (\<not> (\<exists>l \<in> set (licenses d). l_reseller l = Some rid \<and> l_status l = ACTIVE) \<longrightarrow>
            deleteReseller reqUser rid d =
              (Res 200 True ''Reseller deleted successfully'' NoData,
               d\<lparr>resellers := filter (\<lambda>x. r_id x \<noteq> rid) (resellers d)\<rparr>)
            \<and> findReseller (snd (deleteReseller reqUser rid d)) rid = None)"
proof -
  have rid: "r_id r = rid"
    using r find_Some_pred[of "\<lambda>r. r_id r = rid" "resellers d" r] by (simp add: findReseller_def)
  have cnt: "(length (filter (\<lambda>l. l_reseller l = Some rid \<and> l_status l = ACTIVE) (licenses d)) > 0)
             = (\<exists>l \<in> set (licenses d). l_reseller l = Some rid \<and> l_status l = ACTIVE)"
    by (auto simp: filter_empty_conv)
  have gone: "find (\<lambda>x. r_id x = rid) (filter (\<lambda>x. r_id x \<noteq> rid) xs) = None"
    for xs :: "reseller list"
    by (induction xs) auto
  show ?thesis
    using r a own cnt rid gone
    by (auto simp: deleteReseller_def Let_def findReseller_def)
qed

theorem deleteReseller_blocked_by_active_only_witness:
  "deleteReseller exOwner 3 exDb =
     (Res 400 False ''Cannot delete reseller with 1 active licenses'' NoData, exDb)
   \<and> map l_status (licenses exDbInactive) = [BANNED, REVOKED, EXPIRED]
   \<and> fst (deleteReseller exOwner 3 exDbInactive) =
       Res 200 True ''Reseller deleted successfully'' NoData
   \<and> resellers (snd (deleteReseller exOwner 3 exDbInactive)) = []"
  using deleteReseller_blocked_by_active_only[of exDb 3 exReseller exApp exOwner]
    deleteReseller_blocked_by_active_only[of exDbInactive 3 exReseller exApp exOwner]
  by (simp add: deleteReseller_def findReseller_def findApp_def exStates showEval Let_def)

subsection \<open>Payment webhook\<close>

text \<open>
  C8. Without a configured webhook secret (unset or empty) the handler answers
  \<open>{received: true}\<close> and leaves the store as it is; with a secret, a signature header
  that is not the HMAC of the body is rejected with 400 and the store is left as it is;
  a correctly signed \<open>payment.captured\<close> event for a stored Payment whose status is
  already captured changes nothing in the store.
\<close>

theorem webhook_secret_signature_replay:
  "((webhookSecret e = None \<or> webhookSecret e = Some []) \<longrightarrow>
      webhook e sig body d = (Received, d))
   \<and> (\<forall>secret. webhookSecret e = Some secret \<and> secret \<noteq> []
         \<and> sig \<noteq> Some (hmacSha256Hex e secret (wb_json body)) \<longrightarrow>
       webhook e sig body d = (HookError 400 ''Invalid signature'', d))
   \<and> (\<forall>secret ent p. webhookSecret e = Some secret \<and> secret \<noteq> []
         \<and> sig = Some (hmacSha256Hex e secret (wb_json body))
         \<and> wb_event body = ''payment.captured'' \<and> wb_payment body = Some ent
         \<and> findPaymentByRazorpayId d (e_id ent) = Some p \<and> p_status p = Captured \<longrightarrow>
       webhook e sig body d = (Received, d))"
  by (auto simp: webhook_def handlePaymentCaptured_def)

theorem webhook_secret_signature_replay_witness:
  "webhook (exEnv\<lparr>webhookSecret := None\<rparr>) (Some ''forged'') exCaptured exDbPaid = (Received, exDbPaid)
   \<and> webhook exEnv (Some ''forged'') exCaptured exDbPaid = (HookError 400 ''Invalid signature'', exDbPaid)
   \<and> webhook exEnv (Some ''whsec:{payment.captured pay_1}'') exCaptured exDbPaid = (Received, exDbPaid)
   \<and> map p_status (payments exDbPaid) = [Captured]"
  using webhook_secret_signature_replay[of "exEnv\<lparr>webhookSecret := None\<rparr>" "Some ''forged''" exCaptured exDbPaid]
    webhook_secret_signature_replay[of exEnv "Some ''forged''" exCaptured exDbPaid]
    webhook_secret_signature_replay[of exEnv "Some ''whsec:{payment.captured pay_1}''" exCaptured exDbPaid]
  by (simp add: exEnv_def exCaptured_def exDbPaid_def exPayment_def findPaymentByRazorpayId_def)

subsection \<open>Client login and the HWID lock\<close>






subsection \<open>Client registration\<close>








subsection \<open>Creating a license with an explicit key\<close>

lemma licenses_saveReseller [simp]: "licenses (saveReseller r d) = licenses d"
  by (simp add: saveReseller_def)

lemma nextId_saveReseller [simp]: "nextId (saveReseller r d) = nextId d"
  by (simp add: saveReseller_def)

text \<open>
  C7. For a creation request whose body carries a key (a non-empty string): if the
  App does not allow custom keys the request is rejected and nothing is stored; if a
  License with that key exists the request is rejected and nothing is stored; for the
  App's owner within the quota these are the 400 replies of the key check, and
  otherwise the License is created with exactly the supplied key. Whoever the requester
  is, a License that the request creates has the supplied key.
\<close>

theorem createLicense_explicit_key:
  assumes k: "k \<noteq> []"
  shows "(\<forall>a. findApp d appRef = Some a \<and> \<not> allowCustomLicenseKey a \<longrightarrow>
            (\<exists>st m. createLicense e u appRef (Str k) expAt note draws d
                      = Some (Res st False m NoData, d)))
       \<and> (findLicenseByKey d k \<noteq> None \<longrightarrow>
            (\<exists>st m. createLicense e u appRef (Str k) expAt note draws d
                      = Some (Res st False m NoData, d)))
       \<and> (\<forall>a. findApp d appRef = Some a \<and> a_owner a = u_id u
               \<and> appCanCreateLicense d a (u_id u) \<longrightarrow>
            (\<not> allowCustomLicenseKey a \<longrightarrow>
               createLicense e u appRef (Str k) expAt note draws d
                 = Some (Res 400 False ''Custom license keys are not allowed for this app'' NoData, d))
          \<and> (allowCustomLicenseKey a \<and> findLicenseByKey d k \<noteq> None \<longrightarrow>
               createLicense e u appRef (Str k) expAt note draws d
                 = Some (Res 400 False ''License key already exists'' NoData, d))
          \<and> (allowCustomLicenseKey a \<and> findLicenseByKey d k = None \<longrightarrow>
               (\<exists>l. createLicense e u appRef (Str k) expAt note draws d
                       = Some (Res 201 True ''License created successfully'' (LicenseData l),
                               d\<lparr>licenses := licenses d @ [l], nextId := Suc (nextId d)\<rparr>)
                    \<and> l_key l = k \<and> l_app l = a_id a \<and> l_createdByType l = ByOwner)))
       \<and> (\<forall>st m l d1. createLicense e u appRef (Str k) expAt note draws d
                         = Some (Res st True m (LicenseData l), d1) \<longrightarrow>
            l_key l = k \<and> l \<in> set (licenses d1))"
proof -
  have as: "createLicenseAs u a byType res (Str k) expAt note draws d = Some (Res st True m (LicenseData l), d1)
            \<Longrightarrow> l_key l = k \<and> l \<in> set (licenses d1)" for a byType res st m l d1
    using k
    by (auto simp: createLicenseAs_def licenseCreate_def truthy_def Let_def
             split: if_splits option.splits)
  have asR: "\<not> allowCustomLicenseKey a \<or> findLicenseByKey d k \<noteq> None \<Longrightarrow>
             \<exists>st m. createLicenseAs u a byType res (Str k) expAt note draws d = Some (Res st False m NoData, d)"
    for a byType res
    using k by (auto simp: createLicenseAs_def truthy_def)
  have p1: "\<exists>st m. createLicense e u appRef (Str k) expAt note draws d = Some (Res st False m NoData, d)"
    if "findApp d appRef = Some a" "\<not> allowCustomLicenseKey a \<or> findLicenseByKey d k \<noteq> None" for a
    using that asR[of a] by (auto simp: createLicense_def split: option.splits)
  have p2: "findLicenseByKey d k \<noteq> None \<longrightarrow>
            (\<exists>st m. createLicense e u appRef (Str k) expAt note draws d
                      = Some (Res st False m NoData, d))"
  proof (cases "findApp d appRef")
    case None
    then show ?thesis by (simp add: createLicense_def)
  next
    case (Some a)
    then show ?thesis using p1[of a] by blast
  qed
  have p3: "(\<not> allowCustomLicenseKey a \<longrightarrow>
               createLicense e u appRef (Str k) expAt note draws d
                 = Some (Res 400 False ''Custom license keys are not allowed for this app'' NoData, d))
          \<and> (allowCustomLicenseKey a \<and> findLicenseByKey d k \<noteq> None \<longrightarrow>
               createLicense e u appRef (Str k) expAt note draws d
                 = Some (Res 400 False ''License key already exists'' NoData, d))
          \<and> (allowCustomLicenseKey a \<and> findLicenseByKey d k = None \<longrightarrow>
               (\<exists>l. createLicense e u appRef (Str k) expAt note draws d
                       = Some (Res 201 True ''License created successfully'' (LicenseData l),
                               d\<lparr>licenses := licenses d @ [l], nextId := Suc (nextId d)\<rparr>)
                    \<and> l_key l = k \<and> l_app l = a_id a \<and> l_createdByType l = ByOwner))"
    if "findApp d appRef = Some a" "a_owner a = u_id u" "appCanCreateLicense d a (u_id u)" for a
    using that k
    by (auto simp: createLicense_def createLicenseAs_def licenseCreate_def truthy_def Let_def)
  have p4: "createLicense e u appRef (Str k) expAt note draws d
                         = Some (Res st True m (LicenseData l), d1) \<Longrightarrow>
            l_key l = k \<and> l \<in> set (licenses d1)" for st m l d1
    using as by (auto simp: createLicense_def split: option.splits if_splits)
  show ?thesis
    using p1 p2 p3 p4 by blast
qed

theorem createLicense_explicit_key_witness:
  "createLicense exEnv exOwner 2 (Str ''MY-KEY'') 2000 None [] exDb
     = Some (Res 400 False ''Custom license keys are not allowed for this app'' NoData, exDb)
   \<and> createLicense exEnv exOwner 2 (Str ''0123456789ABCDEF01234567'') 2000 None [] exDbCustom
     = Some (Res 400 False ''License key already exists'' NoData, exDbCustom)
   \<and> (\<exists>l. createLicense exEnv exOwner 2 (Str ''MY-KEY'') 2000 None [] exDbCustom
            = Some (Res 201 True ''License created successfully'' (LicenseData l),
                    exDbCustom\<lparr>licenses := licenses exDbCustom @ [l], nextId := 6\<rparr>)
          \<and> l_key l = ''MY-KEY'')"
proof -
  have k1: "''MY-KEY'' \<noteq> []" and k2: "''0123456789ABCDEF01234567'' \<noteq> []"
    by simp_all
  have app: "findApp exDb 2 = Some exApp"
    "findApp exDbCustom 2 = Some (exApp\<lparr>allowCustomLicenseKey := True\<rparr>)"
    by (simp_all add: findApp_def exStates)
  have own: "a_owner exApp = u_id exOwner"
    "a_owner (exApp\<lparr>allowCustomLicenseKey := True\<rparr>) = u_id exOwner"
    by (simp_all add: exStates)
  have quota: "appCanCreateLicense exDb exApp (u_id exOwner)"
    "appCanCreateLicense exDbCustom (exApp\<lparr>allowCustomLicenseKey := True\<rparr>) (u_id exOwner)"
    by (simp_all add: appCanCreateLicense_def findUser_def exStates)
  have allow: "\<not> allowCustomLicenseKey exApp"
    "allowCustomLicenseKey (exApp\<lparr>allowCustomLicenseKey := True\<rparr>)"
    by (simp_all add: exStates)
  have keys: "findLicenseByKey exDbCustom ''0123456789ABCDEF01234567'' \<noteq> None"
    "findLicenseByKey exDbCustom ''MY-KEY'' = None"
    by (simp_all add: findLicenseByKey_def exStates)
  have n: "Suc (nextId exDbCustom) = 6"
    by (simp add: exStates)
  have a: "createLicense exEnv exOwner 2 (Str ''MY-KEY'') 2000 None [] exDb
     = Some (Res 400 False ''Custom license keys are not allowed for this app'' NoData, exDb)"
    using createLicense_explicit_key[OF k1, of exDb 2 exEnv exOwner 2000 None "[]"]
      app(1) own(1) quota(1) allow(1) by blast
  have b: "createLicense exEnv exOwner 2 (Str ''0123456789ABCDEF01234567'') 2000 None [] exDbCustom
     = Some (Res 400 False ''License key already exists'' NoData, exDbCustom)"
    using createLicense_explicit_key[OF k2, of exDbCustom 2 exEnv exOwner 2000 None "[]"]
      app(2) own(2) quota(2) allow(2) keys(1) by blast
  have c: "\<exists>l. createLicense exEnv exOwner 2 (Str ''MY-KEY'') 2000 None [] exDbCustom
            = Some (Res 201 True ''License created successfully'' (LicenseData l),
                    exDbCustom\<lparr>licenses := licenses exDbCustom @ [l], nextId := Suc (nextId exDbCustom)\<rparr>)
          \<and> l_key l = ''MY-KEY''"
    using createLicense_explicit_key[OF k1, of exDbCustom 2 exEnv exOwner 2000 None "[]"]
      app(2) own(2) quota(2) allow(2) keys(2) by blast
  show ?thesis
    using a b c unfolding n by blast
qed


subsection \<open>Bulk creation by a reseller\<close>










subsection \<open>The License collection along any sequence of requests\<close>

lemma storeOk_empty: "licenses d = [] \<Longrightarrow> licenseStoreOk d"
  by (simp add: licenseStoreOk_def usedHasClient_def)









































end
